theory Spec2Isabelle
  imports Complex_Main
begin

section \<open>Values decoded from the message bus\<close>

text \<open>
  \<^verbatim>\<open>json.loads\<close> turns a payload into a Python value: \<^verbatim>\<open>None\<close>, a bool, an int, a
  float, a str, a list or a dict (insertion ordered, keys distinct). A float is kept as
  the rational it denotes.
\<close>

datatype json =
    JNull
  | JBool bool
  | JInt int
  | JFloat rat
  | JStr string
  | JArr "json list"
  | JObj "(string \<times> json) list"

datatype pyerr =
    JSONDecodeError
  | AttributeError
  | ValueError
  | TypeError
  | OverflowError

text \<open>Python truthiness, as \<^verbatim>\<open>bool(connected)\<close> and \<^verbatim>\<open>if valid:\<close> use it.\<close>

fun truthy :: "json \<Rightarrow> bool" where
  "truthy JNull = False"
| "truthy (JBool b) = b"
| "truthy (JInt n) = (n \<noteq> 0)"
| "truthy (JFloat r) = (r \<noteq> 0)"
| "truthy (JStr s) = (s \<noteq> [])"
| "truthy (JArr xs) = (xs \<noteq> [])"
| "truthy (JObj kvs) = (kvs \<noteq> [])"

text \<open>
  \<^verbatim>\<open>str.upper()\<close> on the ASCII letters (bytes outside \<open>a..z\<close> are kept); the method
  exists on a str only, every other decoded value raises AttributeError.
\<close>

definition upper_char :: "char \<Rightarrow> char" where
  "upper_char c =
     (case map_of (zip ''abcdefghijklmnopqrstuvwxyz'' ''ABCDEFGHIJKLMNOPQRSTUVWXYZ'') c of
        Some u \<Rightarrow> u
      | None \<Rightarrow> c)"

definition str_upper :: "string \<Rightarrow> string" where
  "str_upper s = map upper_char s"

definition upper :: "json \<Rightarrow> pyerr + string" where
  "upper v = (case v of JStr s \<Rightarrow> Inr (str_upper s) | _ \<Rightarrow> Inl AttributeError)"

text \<open>\<^verbatim>\<open>topic.split("/")[-1]\<close>: \<^verbatim>\<open>split\<close> always returns at least one piece.\<close>

fun split_on :: "char \<Rightarrow> string \<Rightarrow> string list" where
  "split_on c [] = [[]]"
| "split_on c (x # xs) =
     (if x = c then [] # split_on c xs
      else (case split_on c xs of w # ws \<Rightarrow> (x # w) # ws | [] \<Rightarrow> [[x]]))"

definition last_segment :: "string \<Rightarrow> string" where
  "last_segment t = last (split_on (CHR ''/'') t)"

text \<open>
  \<^verbatim>\<open>list(payload.values())\<close> after \<^verbatim>\<open>payload = json.loads(message.payload)\<close>. The payload
  of a message is held as what \<^verbatim>\<open>json.loads\<close> makes of it, \<open>None\<close> when it raises
  (\<open>JSONDecodeError\<close> stands for whichever exception that is, a UnicodeDecodeError on
  bytes that are not UTF-8 included); a decoded value other than a dict has no
  \<^verbatim>\<open>values\<close>.
\<close>

definition dict_values :: "json \<Rightarrow> pyerr + json list" where
  "dict_values p = (case p of JObj kvs \<Rightarrow> Inr (map snd kvs) | _ \<Rightarrow> Inl AttributeError)"

definition loads_values :: "json option \<Rightarrow> pyerr + json list" where
  "loads_values pl = (case pl of None \<Rightarrow> Inl JSONDecodeError | Some p \<Rightarrow> dict_values p)"

record message =
  topic :: string
  payload :: "json option"

section \<open>Record store rows\<close>

text \<open>
  A \<^verbatim>\<open>Card\<close> row with the two columns routes.py reads and writes (\<^verbatim>\<open>rfid_id\<close>,
  \<^verbatim>\<open>alias\<close>), and a \<^verbatim>\<open>Shift\<close> row with the columns \<^verbatim>\<open>select_circuit\<close> loads. The
  circuit and the path frequencies are whatever the schedule generator stored, so their
  types are parameters. \<^verbatim>\<open>alarms\<close> may be Python's \<^verbatim>\<open>None\<close>.
\<close>

record card =
  rfid_id :: string
  card_alias :: string

record ('c, 'p) shift =
  shift_id :: int
  shift_start :: int
  shift_end :: int
  circuit :: 'c
  path_freqs :: 'p
  completed :: bool
  alarms :: "string list option"

section \<open>The module's globals\<close>

text \<open>
  The globals of routes.py, lines 23 to 60. \<^verbatim>\<open>CURRENT_SCANNED_SENTRY\<close> is never read or
  assigned by any function and is left out.
\<close>

record ('c, 'p) globals =
  SHIFT_STATUS :: bool
  CURRENT_CIRCUIT :: "int option"
  SENTRY_CIRCUIT :: "'c option"
  CIRCUIT_COMPLETED :: bool
  PATHS :: "'p option"
  START :: int
  END :: int
  ALARMS :: "string list option"
  ALARM_TRIGGERED :: bool
  APP_CONNECTED :: bool
  HANDLER_CONNECTED :: bool
  CHK_A_CONNECTED :: bool
  CHK_B_CONNECTED :: bool
  CHK_C_CONNECTED :: bool
  CHK_D_CONNECTED :: bool

definition initial_globals :: "('c, 'p) globals" where
  "initial_globals =
     \<lparr>SHIFT_STATUS = False, CURRENT_CIRCUIT = None, SENTRY_CIRCUIT = None,
      CIRCUIT_COMPLETED = False, PATHS = None, START = 0, END = 0, ALARMS = None,
      ALARM_TRIGGERED = False, APP_CONNECTED = False, HANDLER_CONNECTED = False,
      CHK_A_CONNECTED = False, CHK_B_CONNECTED = False, CHK_C_CONNECTED = False,
      CHK_D_CONNECTED = False\<rparr>"

section \<open>Effects and outcomes\<close>

text \<open>
  A pushed message is an f-string: literal text with values spliced in. A spliced decoded
  value is kept as the value (\<open>Value\<close>), to be rendered by \<^verbatim>\<open>str()\<close>.
\<close>

datatype frag = Text string | Value json

text \<open>
  What a handler does besides changing the globals, in order: \<^verbatim>\<open>mqtt.publish\<close> (topic,
  payload, qos; 0 when not given), \<^verbatim>\<open>socketio.emit\<close> (event, alert level, message),
  \<^verbatim>\<open>flash\<close>, \<^verbatim>\<open>print\<close>, and the response it returns.
\<close>

datatype effect =
    Publish string string nat
  | Emit string string "frag list"
  | Flash string string
  | Print string
  | Redirect string
  | RenderTemplate string

text \<open>
  The outcome of one handler call: the globals it leaves, the effects it got to, and the
  exception that left it, if any.
\<close>

record ('c, 'p) outcome =
  globals_of :: "('c, 'p) globals"
  emitted :: "effect list"
  raised :: "pyerr option"

definition returns :: "('c, 'p) globals \<Rightarrow> effect list \<Rightarrow> ('c, 'p) outcome" where
  "returns g es = \<lparr>globals_of = g, emitted = es, raised = None\<rparr>"

definition raises :: "('c, 'p) globals \<Rightarrow> effect list \<Rightarrow> pyerr \<Rightarrow> ('c, 'p) outcome" where
  "raises g es e = \<lparr>globals_of = g, emitted = es, raised = Some e\<rparr>"

section \<open>What the module imports\<close>

text \<open>
  The topic constants of \<^verbatim>\<open>app.mqtts\<close>, the rows \<^verbatim>\<open>Card.query.all()\<close> returns, the two
  clock readings (\<^verbatim>\<open>datetime.now().strftime("%H:%M:%S")\<close> and, for a number \<open>t\<close>,
  \<^verbatim>\<open>datetime.fromtimestamp(t).strftime("%H:%M:%S")\<close>, which raises outside the platform's
  range), and \<^verbatim>\<open>utils.update_circuit\<close>, which works on the circuit in place: it is given
  the circuit and the scan's last three items and leaves a circuit and possibly an
  exception.
\<close>

record 'c env =
  ALERTS :: string
  DONE :: string
  ALARM :: string
  SHIFT_ON_OFF :: string
  cards :: "card list"
  now_hms :: string
  localtime_hms :: "rat \<Rightarrow> pyerr + string"
  update_circuit :: "'c option \<Rightarrow> (string \<times> json) list \<Rightarrow> 'c option \<times> pyerr option"

text \<open>
  \<^verbatim>\<open>datetime.fromtimestamp(time)\<close> takes an int or a float (a bool is an int) and raises
  TypeError on anything else.
\<close>

definition fromtimestamp_hms :: "'c env \<Rightarrow> json \<Rightarrow> pyerr + string" where
  "fromtimestamp_hms env t =
     (case t of
        JInt n \<Rightarrow> localtime_hms env (of_int n)
      | JFloat r \<Rightarrow> localtime_hms env r
      | JBool b \<Rightarrow> localtime_hms env (if b then 1 else 0)
      | _ \<Rightarrow> Inl TypeError)"

text \<open>
  \<^verbatim>\<open>id not in cards\<close> (line 631) tests the decoded \<^verbatim>\<open>id\<close> against the \<^verbatim>\<open>Card\<close> rows
  themselves: \<^verbatim>\<open>in\<close> on a list is identity or \<^verbatim>\<open>==\<close>, and a row of a model class is
  equal to itself only, never to a str or a number.
\<close>

definition card_eq :: "json \<Rightarrow> card \<Rightarrow> bool" where
  "card_eq v c = False"

definition in_cards :: "json \<Rightarrow> card list \<Rightarrow> bool" where
  "in_cards v cs = list_ex (card_eq v) cs"

section \<open>The operator's handlers\<close>

text \<open>
  \<^verbatim>\<open>select_circuit\<close>, lines 269 to 307. The form is given as the \<^verbatim>\<open>Shift\<close> row it
  carries when \<^verbatim>\<open>form.validate_on_submit()\<close> holds, \<open>None\<close> otherwise.
\<close>

definition select_circuit ::
  "('c, 'p) globals \<Rightarrow> 'c env \<Rightarrow> ('c, 'p) shift option \<Rightarrow> ('c, 'p) outcome" where
  "select_circuit g env form =
     (case form of
        Some sh \<Rightarrow>
          returns
            (g\<lparr>SHIFT_STATUS := True,
               CURRENT_CIRCUIT := Some (shift_id sh),
               SENTRY_CIRCUIT := Some (circuit sh),
               PATHS := Some (path_freqs sh),
               START := shift_start sh,
               END := shift_end sh,
               CIRCUIT_COMPLETED := completed sh,
               ALARMS := alarms sh\<rparr>)
            [Publish (SHIFT_ON_OFF env) ''ON'' 0,
             Flash ''Shift set!'' ''success'',
             Redirect ''view_current_route'']
      | None \<Rightarrow> returns g [RenderTemplate ''select-circuit.html''])"

text \<open>\<^verbatim>\<open>deselect_circuit\<close>, lines 326 to 346.\<close>

definition deselect_circuit :: "('c, 'p) globals \<Rightarrow> 'c env \<Rightarrow> ('c, 'p) outcome" where
  "deselect_circuit g env =
     returns
       (g\<lparr>SHIFT_STATUS := False,
          CURRENT_CIRCUIT := None,
          SENTRY_CIRCUIT := None,
          START := 0,
          END := 0\<rparr>)
       [Publish (SHIFT_ON_OFF env) ''OFF'' 0,
        Flash ''Shift Deselected.'' ''info'',
        Redirect ''select_circuit'']"

text \<open>\<^verbatim>\<open>silence_alarm\<close>, lines 662 to 675.\<close>

definition silence_alarm :: "('c, 'p) globals \<Rightarrow> 'c env \<Rightarrow> ('c, 'p) outcome" where
  "silence_alarm g env =
     returns
       (g\<lparr>ALARM_TRIGGERED := False\<rparr>)
       [Print ''alarm silenced'',
        Publish (ALARM env) ''OFF'' 2,
        Redirect ''home'']"

section \<open>The bus handler\<close>

text \<open>
  \<^verbatim>\<open>on_mqtt_message\<close>, lines 527 to 658, one definition for each branch of its
  \<^verbatim>\<open>if\<close>/\<^verbatim>\<open>elif\<close> chain. The handler has no \<^verbatim>\<open>try\<close>: an exception leaves it at the
  statement that raised, with the assignments made so far. It declares
  \<^verbatim>\<open>ALARM_TRIGGERED\<close> and \<^verbatim>\<open>ALARMS\<close> global a second time in the scan-result branch,
  after the overdue branch has used them (CPython from 3.6 on refuses that when it
  compiles the module); the statements are followed here as they are written, a
  \<^verbatim>\<open>global\<close> declaration only naming the scope.
\<close>

text \<open>Lines 535 to 563: a topic ending in \<^verbatim>\<open>connected\<close>.\<close>

definition on_connected :: "('c, 'p) globals \<Rightarrow> json option \<Rightarrow> ('c, 'p) outcome" where
  "on_connected g pl =
     (case loads_values pl of
        Inl e \<Rightarrow> raises g [] e
      | Inr vs \<Rightarrow>
          (case vs of
             [client, conn] \<Rightarrow>
               returns
                 (if client = JStr ''circuit-handler'' then g\<lparr>HANDLER_CONNECTED := truthy conn\<rparr>
                  else if client = JStr ''checkpoint-A'' then g\<lparr>CHK_A_CONNECTED := truthy conn\<rparr>
                  else if client = JStr ''checkpoint-B'' then g\<lparr>CHK_B_CONNECTED := truthy conn\<rparr>
                  else if client = JStr ''checkpoint-C'' then g\<lparr>CHK_C_CONNECTED := truthy conn\<rparr>
                  else if client = JStr ''checkpoint-D'' then g\<lparr>CHK_D_CONNECTED := truthy conn\<rparr>
                  else g)
                 []
           | _ \<Rightarrow> raises g [] ValueError))"

text \<open>Lines 565 to 598: a topic ending in \<^verbatim>\<open>overdue-scan\<close>.\<close>

definition overdue_message :: "string \<Rightarrow> json \<Rightarrow> string \<Rightarrow> frag list" where
  "overdue_message idu chk tm =
     [Text ''<strong>OVERDUE CHECK-IN!</strong> Sentry with card ID: '', Text idu,
      Text '' expected at checkpoint '', Value chk, Text '' at '', Text tm, Text ''.'']"

definition on_overdue_scan ::
  "('c, 'p) globals \<Rightarrow> 'c env \<Rightarrow> json option \<Rightarrow> ('c, 'p) outcome" where
  "on_overdue_scan g env pl =
     (case loads_values pl of
        Inl e \<Rightarrow> raises g [] e
      | Inr vs \<Rightarrow>
          (case vs of
             [ident, chk, time, checked] \<Rightarrow>
               (case fromtimestamp_hms env time of
                  Inl e \<Rightarrow> raises g [] e
                | Inr tm \<Rightarrow>
                    (case upper ident of
                       Inl e \<Rightarrow> raises g [] e
                     | Inr idu \<Rightarrow>
                         (let g1 = g\<lparr>ALARM_TRIGGERED := True\<rparr> in
                          case ALARMS g1 of
                            None \<Rightarrow> raises g1 [] AttributeError
                          | Some al \<Rightarrow>
                              returns
                                (g1\<lparr>ALARMS := Some (al @ [now_hms env])\<rparr>)
                                [Publish (ALARM env) ''ON'' 2,
                                 Emit ''alert-msgs'' ''alert-danger''
                                   (overdue_message idu chk tm)])))
           | _ \<Rightarrow> raises g [] ValueError))"

text \<open>Lines 600 to 645: the topic \<^verbatim>\<open>ALERTS\<close>.\<close>

definition success_message :: "string \<Rightarrow> json \<Rightarrow> json \<Rightarrow> frag list" where
  "success_message idu chk time =
     [Text ''<strong>SUCCESSFUL CHECK-IN!</strong> Sentry with card ID: '', Text idu,
      Text '' checked in at checkpoint '', Value chk, Text '' at '', Value time, Text ''.'']"

definition invalid_message :: "string \<Rightarrow> string \<Rightarrow> json \<Rightarrow> json \<Rightarrow> frag list" where
  "invalid_message tag idu chk time =
     [Text ''<strong>'', Text tag, Text ''!</strong> Sentry with card ID: '', Text idu,
      Text '' checked in at checkpoint '', Value chk, Text '' at '', Value time, Text ''.'']"

text \<open>Lines 628 to 633: the tag of an invalid scan.\<close>

definition invalid_tag :: "'c env \<Rightarrow> json \<Rightarrow> json \<Rightarrow> pyerr + string" where
  "invalid_tag env reason ident =
     (if reason = JStr ''card not on duty''
      then Inr (if \<not> in_cards ident (cards env) then ''UNKNOWN CARD'' else ''STOLEN CARD'')
      else upper reason)"

definition on_alerts :: "('c, 'p) globals \<Rightarrow> 'c env \<Rightarrow> json option \<Rightarrow> ('c, 'p) outcome" where
  "on_alerts g env pl =
     (case loads_values pl of
        Inl e \<Rightarrow> raises g [] e
      | Inr vs \<Rightarrow>
          (case vs of
             [valid, reason, ident, chk, time] \<Rightarrow>
               (if truthy valid then
                  (let scan_info = (case pl of Some (JObj kvs) \<Rightarrow> drop 2 kvs | _ \<Rightarrow> []);
                       (c', err) = update_circuit env (SENTRY_CIRCUIT g) scan_info;
                       g1 = g\<lparr>SENTRY_CIRCUIT := c'\<rparr>
                   in case err of
                        Some e \<Rightarrow> raises g1 [] e
                      | None \<Rightarrow>
                          (case upper ident of
                             Inl e \<Rightarrow> raises g1 [] e
                           | Inr idu \<Rightarrow>
                               returns g1
                                 [Emit ''alert-msgs'' ''alert-success''
                                    (success_message idu chk time)]))
                else
                  (case invalid_tag env reason ident of
                     Inl e \<Rightarrow> raises g [] e
                   | Inr tag \<Rightarrow>
                       (let g1 = g\<lparr>ALARM_TRIGGERED := True\<rparr> in
                        case ALARMS g1 of
                          None \<Rightarrow> raises g1 [] AttributeError
                        | Some al \<Rightarrow>
                            (let g2 = g1\<lparr>ALARMS := Some (al @ [now_hms env])\<rparr>;
                                 pub = Publish (ALARM env) ''ON'' 2
                             in case upper ident of
                                  Inl e \<Rightarrow> raises g2 [pub] e
                                | Inr idu \<Rightarrow>
                                    returns g2
                                      [pub,
                                       Emit ''alert-msgs'' ''alert-danger''
                                         (invalid_message tag idu chk time)]))))
           | _ \<Rightarrow> raises g [] ValueError))"

text \<open>Lines 647 to 658: the topic \<^verbatim>\<open>DONE\<close>.\<close>

definition on_done :: "('c, 'p) globals \<Rightarrow> 'c env \<Rightarrow> ('c, 'p) outcome" where
  "on_done g env =
     returns
       (g\<lparr>CIRCUIT_COMPLETED := True, SHIFT_STATUS := False\<rparr>)
       [Publish (SHIFT_ON_OFF env) ''OFF'' 0,
        Emit ''alert-msgs'' ''alert-success''
          [Text ''<strong>CIRCUIT COMPLETE!</strong> Save and exit.'']]"

definition on_mqtt_message ::
  "('c, 'p) globals \<Rightarrow> 'c env \<Rightarrow> message \<Rightarrow> ('c, 'p) outcome" where
  "on_mqtt_message g env m =
     (if last_segment (topic m) = ''connected'' then on_connected g (payload m)
      else if last_segment (topic m) = ''overdue-scan'' then on_overdue_scan g env (payload m)
      else if topic m = ALERTS env then on_alerts g env (payload m)
      else if topic m = DONE env then on_done g env
      else returns g [])"

section \<open>A deployment to run the handlers on\<close>

text \<open>
  Modelled from the spec: the circuit \<^verbatim>\<open>utils.generate_circuit\<close> stores and
  \<^verbatim>\<open>utils.update_circuit\<close> works on (\<^verbatim>\<open>app/utils.py\<close> is not among the sources). Section
  3 gives an entry as checkpoint, sentry, card, expected time, observed time or none, and
  a status among pending, confirmed and missed; section 4.1 has a valid scan find the
  pending entry of its card and checkpoint, mark it confirmed and record the observed
  time, and change nothing when there is no such entry.
\<close>

datatype status = Pending | Confirmed | Missed

record entry =
  checkpoint :: string
  sentry :: string
  entry_card :: string
  expected_time :: int
  observed_time :: "int option"
  status :: status

fun confirm_entry :: "string \<Rightarrow> string \<Rightarrow> int \<Rightarrow> entry list \<Rightarrow> entry list" where
  "confirm_entry cid chk t [] = []"
| "confirm_entry cid chk t (e # es) =
     (if entry_card e = cid \<and> checkpoint e = chk \<and> status e = Pending
      then e\<lparr>observed_time := Some t, status := Confirmed\<rparr> # es
      else e # confirm_entry cid chk t es)"

definition update_circuit_spec ::
  "entry list option \<Rightarrow> (string \<times> json) list \<Rightarrow> entry list option \<times> pyerr option" where
  "update_circuit_spec c scan_info =
     (case c of
        None \<Rightarrow> (c, None)
      | Some es \<Rightarrow>
          (case map snd scan_info of
             [JStr cid, JStr chk, JInt t] \<Rightarrow> (Some (confirm_entry cid chk t es), None)
           | _ \<Rightarrow> (c, None)))"

text \<open>
  A host whose local time is UTC, for the years 1 to 9999 that \<^verbatim>\<open>datetime\<close> can hold.
  It is one possible \<open>localtime_hms\<close>, exact on whole seconds inside that range; the
  exception at the bounds and the rounding of a fraction are the platform's.
\<close>

definition two_digits :: "nat \<Rightarrow> string" where
  "two_digits n = [''0123456789'' ! (n div 10 mod 10), ''0123456789'' ! (n mod 10)]"

definition utc_hms :: "rat \<Rightarrow> pyerr + string" where
  "utc_hms r =
     (if r < - 62135596800 \<or> 253402300800 \<le> r then Inl OverflowError
      else (let s = nat (\<lfloor>r\<rfloor> mod 86400)
            in Inr (two_digits (s div 3600) @ '':'' @ two_digits (s div 60 mod 60) @ '':'' @
                    two_digits (s mod 60))))"

definition demo_cards :: "card list" where
  "demo_cards = [\<lparr>rfid_id = ''ab12cd34'', card_alias = ''card-1''\<rparr>,
                 \<lparr>rfid_id = ''ef56ab78'', card_alias = ''card-2''\<rparr>]"

definition demo_env :: "entry list env" where
  "demo_env =
     \<lparr>ALERTS = ''sentry-platform/checkpoints/sentry-scan-info'',
      DONE = ''sentry-platform/circuit-handler/done'',
      ALARM = ''sentry-platform/backend-server/alarm'',
      SHIFT_ON_OFF = ''sentry-platform/backend-server/shift-status'',
      cards = demo_cards,
      now_hms = ''08:15:00'',
      localtime_hms = utc_hms,
      update_circuit = update_circuit_spec\<rparr>"

text \<open>A stored shift of three visits, all pending, with an empty alarm list.\<close>

definition demo_circuit :: "entry list" where
  "demo_circuit =
     [\<lparr>checkpoint = ''A'', sentry = ''Jane Doe'', entry_card = ''ab12cd34'',
       expected_time = 1700000000, observed_time = None, status = Pending\<rparr>,
      \<lparr>checkpoint = ''B'', sentry = ''John Roe'', entry_card = ''ef56ab78'',
       expected_time = 1700000300, observed_time = None, status = Pending\<rparr>,
      \<lparr>checkpoint = ''C'', sentry = ''Jane Doe'', entry_card = ''ab12cd34'',
       expected_time = 1700000600, observed_time = None, status = Pending\<rparr>]"

definition demo_shift :: "(entry list, (string \<times> nat) list) shift" where
  "demo_shift =
     \<lparr>shift_id = 1, shift_start = 1700000000, shift_end = 1700003600,
      circuit = demo_circuit, path_freqs = [(''A'', 2), (''B'', 1), (''C'', 1)],
      completed = False, alarms = Some []\<rparr>"

text \<open>The globals once \<open>demo_shift\<close> has been selected from a fresh start.\<close>

definition demo_selected :: "(entry list, (string \<times> nat) list) globals" where
  "demo_selected = globals_of (select_circuit initial_globals demo_env (Some demo_shift))"

text \<open>
  An overdue report for the first visit, an invalid scan of a registered card that is not
  on duty, and a connectivity report from a device outside the fixed five.
\<close>

definition overdue_first :: message where
  "overdue_first =
     \<lparr>topic = ''sentry-platform/circuit-handler/overdue-scan'',
      payload = Some (JObj [(''id'', JStr ''ab12cd34''), (''checkpoint'', JStr ''A''),
                            (''time'', JInt 1700000000), (''checked'', JBool False)])\<rparr>"

definition scan_not_on_duty :: message where
  "scan_not_on_duty =
     \<lparr>topic = ''sentry-platform/checkpoints/sentry-scan-info'',
      payload = Some (JObj [(''valid'', JBool False), (''reason'', JStr ''card not on duty''),
                            (''id'', JStr ''ab12cd34''), (''checkpoint'', JStr ''A''),
                            (''time'', JInt 1700000000)])\<rparr>"

definition status_unknown_device :: message where
  "status_unknown_device =
     \<lparr>topic = ''sentry-platform/checkpoints/connected'',
      payload = Some (JObj [(''id'', JStr ''checkpoint-E''), (''connected'', JBool True)])\<rparr>"

definition overdue_unscheduled :: message where
  "overdue_unscheduled =
     \<lparr>topic = ''sentry-platform/circuit-handler/overdue-scan'',
      payload = Some (JObj [(''id'', JStr ''9f8e7d6c''), (''checkpoint'', JStr ''D''),
                            (''time'', JInt 1700000900), (''checked'', JBool False)])\<rparr>"

text \<open>An invalid scan whose \<^verbatim>\<open>id\<close> is a number, and a status report with a field missing.\<close>

definition scan_numeric_id :: message where
  "scan_numeric_id =
     \<lparr>topic = ''sentry-platform/checkpoints/sentry-scan-info'',
      payload = Some (JObj [(''valid'', JBool False), (''reason'', JStr ''wrong checkpoint''),
                            (''id'', JInt 7), (''checkpoint'', JStr ''A''),
                            (''time'', JInt 1700000000)])\<rparr>"

definition status_one_field :: message where
  "status_one_field =
     \<lparr>topic = ''sentry-platform/checkpoints/connected'',
      payload = Some (JObj [(''id'', JStr ''checkpoint-A'')])\<rparr>"

text \<open>The globals once the overdue report has come in on the selected shift.\<close>

definition demo_alarmed :: "(entry list, (string \<times> nat) list) globals" where
  "demo_alarmed = globals_of (on_mqtt_message demo_selected demo_env overdue_first)"

section \<open>Notions the properties are stated with\<close>

text \<open>
  How many values the branch taken for a topic unpacks from the payload (lines 546, 581
  and 609); none for \<^verbatim>\<open>DONE\<close> and for a topic no branch takes. A payload has the wrong
  shape when it does not decode, is not a dict, or has another number of values.
\<close>

definition expected_fields :: "'c env \<Rightarrow> string \<Rightarrow> nat option" where
  "expected_fields env t =
     (if last_segment t = ''connected'' then Some 2
      else if last_segment t = ''overdue-scan'' then Some 4
      else if t = ALERTS env then Some 5
      else None)"

definition malformed_shape :: "'c env \<Rightarrow> message \<Rightarrow> bool" where
  "malformed_shape env m =
     (case expected_fields env (topic m) of
        None \<Rightarrow> False
      | Some n \<Rightarrow>
          (case loads_values (payload m) of
             Inl e \<Rightarrow> True
           | Inr vs \<Rightarrow> length vs \<noteq> n))"

text \<open>
  Two states differ at most in \<^verbatim>\<open>ALARM_TRIGGERED\<close>, \<^verbatim>\<open>ALARMS\<close> and
  \<^verbatim>\<open>SENTRY_CIRCUIT\<close>: putting the first state's three values into the second gives
  the first.
\<close>

definition kept_but_alarm_and_circuit ::
  "('c, 'p) globals \<Rightarrow> ('c, 'p) globals \<Rightarrow> bool" where
  "kept_but_alarm_and_circuit g g' =
     (g'\<lparr>ALARM_TRIGGERED := ALARM_TRIGGERED g, ALARMS := ALARMS g,
         SENTRY_CIRCUIT := SENTRY_CIRCUIT g\<rparr> = g)"

text \<open>No circuit is loaded: the five globals \<^verbatim>\<open>deselect_circuit\<close> assigns are empty.\<close>

definition session_cleared :: "('c, 'p) globals \<Rightarrow> bool" where
  "session_cleared g =
     (\<not> SHIFT_STATUS g \<and> CURRENT_CIRCUIT g = None \<and> SENTRY_CIRCUIT g = None \<and>
      START g = 0 \<and> END g = 0)"

section \<open>Properties of the operator's handlers\<close>

text \<open>
  C7. For every state, \<^verbatim>\<open>silence_alarm\<close> sets \<^verbatim>\<open>ALARM_TRIGGERED\<close> to false and publishes
  \<^verbatim>\<open>OFF\<close> on the alarm topic; putting the old flag back gives the old globals, so
  \<^verbatim>\<open>ALARMS\<close> and every other global are unchanged; it does not raise; and when no alarm
  is active the globals are left exactly as they were.
\<close>

theorem silence_alarm_frame:
  "ALARM_TRIGGERED (globals_of (silence_alarm g env)) = False \<and>
   (globals_of (silence_alarm g env))\<lparr>ALARM_TRIGGERED := ALARM_TRIGGERED g\<rparr> = g \<and>
   ALARMS (globals_of (silence_alarm g env)) = ALARMS g \<and>
   Publish (ALARM env) ''OFF'' 2 \<in> set (emitted (silence_alarm g env)) \<and>
   raised (silence_alarm g env) = None \<and>
   (\<not> ALARM_TRIGGERED g \<longrightarrow> globals_of (silence_alarm g env) = g)"
  by (simp add: silence_alarm_def returns_def)

theorem silence_alarm_frame_witness:
  "\<not> ALARM_TRIGGERED demo_selected \<and>
   globals_of (silence_alarm demo_selected demo_env) = demo_selected"
  using silence_alarm_frame [of demo_selected demo_env]
  by (simp add: demo_selected_def select_circuit_def returns_def initial_globals_def)

text \<open>
  C8. \<^verbatim>\<open>deselect_circuit\<close> is idempotent: a second call in a row leaves the globals of
  the first and publishes the same; after any call no circuit is loaded; and when no
  circuit is loaded to begin with the call changes no global.
\<close>

theorem deselect_circuit_idempotent:
  "globals_of (deselect_circuit (globals_of (deselect_circuit g env)) env) =
     globals_of (deselect_circuit g env) \<and>
   emitted (deselect_circuit (globals_of (deselect_circuit g env)) env) =
     emitted (deselect_circuit g env) \<and>
   session_cleared (globals_of (deselect_circuit g env)) \<and>
   (session_cleared g \<longrightarrow> globals_of (deselect_circuit g env) = g)"
  by (simp add: deselect_circuit_def returns_def session_cleared_def)

theorem deselect_circuit_idempotent_witness:
  "session_cleared (initial_globals :: (entry list, (string \<times> nat) list) globals) \<and>
   globals_of (deselect_circuit initial_globals demo_env) =
     (initial_globals :: (entry list, (string \<times> nat) list) globals)"
  using deselect_circuit_idempotent
    [of "initial_globals :: (entry list, (string \<times> nat) list) globals" demo_env]
  by (simp add: session_cleared_def initial_globals_def)

section \<open>Properties of the bus handler\<close>

text \<open>
  C9. A connectivity report (a topic ending in \<^verbatim>\<open>connected\<close>, a payload of two values)
  whose device name is none of \<^verbatim>\<open>circuit-handler\<close> and \<^verbatim>\<open>checkpoint-A\<close> to
  \<^verbatim>\<open>checkpoint-D\<close> leaves every global, so every connection flag, as it was, raises
  nothing and publishes nothing.
\<close>

theorem unknown_device_ignored:
  assumes "last_segment (topic m) = ''connected''"
    and "loads_values (payload m) = Inr [client, conn]"
    and "client \<notin> {JStr ''circuit-handler'', JStr ''checkpoint-A'', JStr ''checkpoint-B'',
                     JStr ''checkpoint-C'', JStr ''checkpoint-D''}"
  shows "on_mqtt_message g env m = returns g []"
  using assms by (simp add: on_mqtt_message_def on_connected_def)

theorem unknown_device_ignored_witness:
  "last_segment (topic status_unknown_device) = ''connected'' \<and>
   loads_values (payload status_unknown_device) = Inr [JStr ''checkpoint-E'', JBool True] \<and>
   JStr ''checkpoint-E'' \<notin> {JStr ''circuit-handler'', JStr ''checkpoint-A'', JStr ''checkpoint-B'',
                              JStr ''checkpoint-C'', JStr ''checkpoint-D''} \<and>
   on_mqtt_message demo_alarmed demo_env status_unknown_device = returns demo_alarmed []"
proof -
  have t: "last_segment (topic status_unknown_device) = ''connected''"
    by (simp add: status_unknown_device_def last_segment_def)
  have p: "loads_values (payload status_unknown_device) = Inr [JStr ''checkpoint-E'', JBool True]"
    by (simp add: status_unknown_device_def loads_values_def dict_values_def)
  have n: "JStr ''checkpoint-E'' \<notin> {JStr ''circuit-handler'', JStr ''checkpoint-A'',
             JStr ''checkpoint-B'', JStr ''checkpoint-C'', JStr ''checkpoint-D''}"
    by simp
  from unknown_device_ignored [OF t p n, of demo_alarmed demo_env] t p n show ?thesis
    by simp
qed

text \<open>The deployment's states and messages, evaluated once.\<close>

lemma demo_selected_eval:
  "demo_selected =
     \<lparr>SHIFT_STATUS = True, CURRENT_CIRCUIT = Some 1, SENTRY_CIRCUIT = Some demo_circuit,
      CIRCUIT_COMPLETED = False, PATHS = Some [(''A'', 2), (''B'', 1), (''C'', 1)],
      START = 1700000000, END = 1700003600, ALARMS = Some [],
      ALARM_TRIGGERED = False, APP_CONNECTED = False, HANDLER_CONNECTED = False,
      CHK_A_CONNECTED = False, CHK_B_CONNECTED = False, CHK_C_CONNECTED = False,
      CHK_D_CONNECTED = False\<rparr>"
  by (simp add: demo_selected_def select_circuit_def returns_def initial_globals_def
      demo_shift_def)

lemma overdue_first_facts:
  "last_segment (topic overdue_first) = ''overdue-scan''"
  "loads_values (payload overdue_first) =
     Inr [JStr ''ab12cd34'', JStr ''A'', JInt 1700000000, JBool False]"
  "fromtimestamp_hms demo_env (JInt 1700000000) = Inr ''22:13:20''"
  "upper (JStr ''ab12cd34'') = Inr ''AB12CD34''"
     apply (simp add: overdue_first_def last_segment_def)
    apply (simp add: overdue_first_def loads_values_def dict_values_def)
   apply (simp add: fromtimestamp_hms_def demo_env_def utc_hms_def two_digits_def)
  apply (simp add: upper_def str_upper_def upper_char_def)
  done

lemma scan_not_on_duty_facts:
  "last_segment (topic scan_not_on_duty) \<noteq> ''connected''"
  "last_segment (topic scan_not_on_duty) \<noteq> ''overdue-scan''"
  "topic scan_not_on_duty = ALERTS demo_env"
  "loads_values (payload scan_not_on_duty) =
     Inr [JBool False, JStr ''card not on duty'', JStr ''ab12cd34'', JStr ''A'', JInt 1700000000]"
     apply (simp add: scan_not_on_duty_def last_segment_def)
    apply (simp add: scan_not_on_duty_def last_segment_def)
   apply (simp add: scan_not_on_duty_def demo_env_def)
  apply (simp add: scan_not_on_duty_def loads_values_def dict_values_def)
  done

text \<open>
  What the handler does with an overdue report and with an invalid scan result of the
  expected shape, by whether \<^verbatim>\<open>ALARMS\<close> is a list.
\<close>

lemma overdue_scan_alarm:
  assumes "last_segment (topic m) = ''overdue-scan''"
    and "loads_values (payload m) = Inr [JStr i, chk, t, c]"
    and "fromtimestamp_hms env t = Inr tm"
  shows "on_mqtt_message g env m =
     (case ALARMS g of
        None \<Rightarrow> raises (g\<lparr>ALARM_TRIGGERED := True\<rparr>) [] AttributeError
      | Some al \<Rightarrow>
          returns (g\<lparr>ALARM_TRIGGERED := True, ALARMS := Some (al @ [now_hms env])\<rparr>)
            [Publish (ALARM env) ''ON'' 2,
             Emit ''alert-msgs'' ''alert-danger'' (overdue_message (str_upper i) chk tm)])"
  using assms
  by (simp add: on_mqtt_message_def on_overdue_scan_def upper_def split: option.splits)

lemma invalid_tag_not_on_duty:
  "invalid_tag env (JStr ''card not on duty'') ident = Inr ''UNKNOWN CARD''"
  by (induction "cards env") (simp_all add: invalid_tag_def in_cards_def card_eq_def list_ex_iff)

lemma invalid_tag_of_str:
  "invalid_tag env (JStr r) ident =
     Inr (if r = ''card not on duty'' then ''UNKNOWN CARD'' else str_upper r)"
  by (simp add: invalid_tag_not_on_duty) (simp add: invalid_tag_def upper_def)

lemma invalid_scan_alarm:
  assumes "last_segment (topic m) \<noteq> ''connected''"
    and "last_segment (topic m) \<noteq> ''overdue-scan''"
    and "topic m = ALERTS env"
    and "loads_values (payload m) = Inr [valid, reason, ident, chk, t]"
    and "\<not> truthy valid"
    and "invalid_tag env reason ident = Inr tag"
  shows "on_mqtt_message g env m =
     (case ALARMS g of
        None \<Rightarrow> raises (g\<lparr>ALARM_TRIGGERED := True\<rparr>) [] AttributeError
      | Some al \<Rightarrow>
          (case upper ident of
             Inl e \<Rightarrow>
               raises (g\<lparr>ALARM_TRIGGERED := True, ALARMS := Some (al @ [now_hms env])\<rparr>)
                 [Publish (ALARM env) ''ON'' 2] e
           | Inr idu \<Rightarrow>
               returns (g\<lparr>ALARM_TRIGGERED := True, ALARMS := Some (al @ [now_hms env])\<rparr>)
                 [Publish (ALARM env) ''ON'' 2,
                  Emit ''alert-msgs'' ''alert-danger'' (invalid_message tag idu chk t)]))"
  using assms
  by (simp add: on_mqtt_message_def on_alerts_def Let_def split: option.splits sum.splits)

lemma demo_alarmed_eval:
  "demo_alarmed = demo_selected\<lparr>ALARM_TRIGGERED := True, ALARMS := Some [''08:15:00'']\<rparr>"
proof -
  note step = overdue_scan_alarm [OF overdue_first_facts(1,2,3), of demo_selected]
  show ?thesis
    unfolding demo_alarmed_def step
    by (simp add: demo_selected_eval returns_def demo_env_def)
qed

text \<open>
  C1, as the handler has it. An overdue report never touches the circuit: whatever its
  payload, after a message on a topic ending in \<^verbatim>\<open>overdue-scan\<close> the circuit
  \<^verbatim>\<open>SENTRY_CIRCUIT\<close> is the one before it, so every entry, a pending one of the
  reported card and checkpoint included, keeps its status; and the only globals the report
  can change are \<^verbatim>\<open>ALARM_TRIGGERED\<close> and \<^verbatim>\<open>ALARMS\<close>: putting their old values back
  gives the old globals.
\<close>

theorem overdue_scan_keeps_circuit:
  assumes "last_segment (topic m) = ''overdue-scan''"
  shows "SENTRY_CIRCUIT (globals_of (on_mqtt_message g env m)) = SENTRY_CIRCUIT g \<and>
    (globals_of (on_mqtt_message g env m))
      \<lparr>ALARM_TRIGGERED := ALARM_TRIGGERED g, ALARMS := ALARMS g\<rparr> = g"
  using assms
  by (simp add: on_mqtt_message_def on_overdue_scan_def returns_def raises_def Let_def
      split: sum.splits list.splits option.splits)

theorem overdue_scan_keeps_circuit_witness:
  "last_segment (topic overdue_first) = ''overdue-scan'' \<and>
   SENTRY_CIRCUIT (globals_of (on_mqtt_message demo_selected demo_env overdue_first)) =
     SENTRY_CIRCUIT demo_selected \<and>
   (globals_of (on_mqtt_message demo_selected demo_env overdue_first))
     \<lparr>ALARM_TRIGGERED := ALARM_TRIGGERED demo_selected, ALARMS := ALARMS demo_selected\<rparr> =
     demo_selected"
  using overdue_scan_keeps_circuit [of overdue_first demo_selected demo_env]
  by (simp add: overdue_first_facts(1))

text \<open>
  C1 as stated fails: with the three pending visits selected, the overdue report for the
  first one (card \<^verbatim>\<open>ab12cd34\<close> at checkpoint \<^verbatim>\<open>A\<close>) is processed without an
  exception and leaves that entry pending, not missed.
\<close>

theorem overdue_leaves_entry_pending:
  "raised (on_mqtt_message demo_selected demo_env overdue_first) = None \<and>
   SENTRY_CIRCUIT (globals_of (on_mqtt_message demo_selected demo_env overdue_first)) =
     Some demo_circuit \<and>
   entry_card (demo_circuit ! 0) = ''ab12cd34'' \<and>
   checkpoint (demo_circuit ! 0) = ''A'' \<and>
   status (demo_circuit ! 0) = Pending \<and>
   status (demo_circuit ! 0) \<noteq> Missed"
proof -
  note step = overdue_scan_alarm [OF overdue_first_facts(1,2,3), of demo_selected]
  show ?thesis
    unfolding step
    by (simp add: demo_selected_eval returns_def demo_circuit_def)
qed

text \<open>
  C2, at a card that is registered. Card \<^verbatim>\<open>ab12cd34\<close> is a row of the record store,
  and its invalid scan with reason \<^verbatim>\<open>card not on duty\<close> is pushed with the tag
  \<^verbatim>\<open>UNKNOWN CARD\<close>, where the comment of lines 623 to 625 and the property ask for
  \<^verbatim>\<open>STOLEN CARD\<close>.
\<close>

theorem not_on_duty_registered_card_tagged_unknown:
  "rfid_id (cards demo_env ! 0) = ''ab12cd34'' \<and>
   on_mqtt_message demo_selected demo_env scan_not_on_duty =
     returns (demo_selected\<lparr>ALARM_TRIGGERED := True, ALARMS := Some [''08:15:00'']\<rparr>)
       [Publish ''sentry-platform/backend-server/alarm'' ''ON'' 2,
        Emit ''alert-msgs'' ''alert-danger''
          (invalid_message ''UNKNOWN CARD'' ''AB12CD34'' (JStr ''A'') (JInt 1700000000))]"
proof -
  have step: "on_mqtt_message demo_selected demo_env scan_not_on_duty =
     (case ALARMS demo_selected of
        None \<Rightarrow> raises (demo_selected\<lparr>ALARM_TRIGGERED := True\<rparr>) [] AttributeError
      | Some al \<Rightarrow>
          (case upper (JStr ''ab12cd34'') of
             Inl e \<Rightarrow>
               raises (demo_selected\<lparr>ALARM_TRIGGERED := True, ALARMS := Some (al @ [now_hms demo_env])\<rparr>)
                 [Publish (ALARM demo_env) ''ON'' 2] e
           | Inr idu \<Rightarrow>
               returns (demo_selected\<lparr>ALARM_TRIGGERED := True, ALARMS := Some (al @ [now_hms demo_env])\<rparr>)
                 [Publish (ALARM demo_env) ''ON'' 2,
                  Emit ''alert-msgs'' ''alert-danger''
                    (invalid_message ''UNKNOWN CARD'' idu (JStr ''A'') (JInt 1700000000))]))"
    by (rule invalid_scan_alarm [OF scan_not_on_duty_facts]) (simp_all add: invalid_tag_not_on_duty)
  show ?thesis
    unfolding step overdue_first_facts(4)
    by (simp add: demo_selected_eval demo_env_def demo_cards_def)
qed

text \<open>
  C10. While \<^verbatim>\<open>ALARMS\<close> is still \<^verbatim>\<open>None\<close>, an overdue report (four values, the
  \<^verbatim>\<open>id\<close> a str, a time \<^verbatim>\<open>fromtimestamp\<close> accepts) and an invalid scan result (five
  values, \<^verbatim>\<open>valid\<close> falsy, the reason a str) both end the same way: the handler has set
  \<^verbatim>\<open>ALARM_TRIGGERED\<close> and raises AttributeError at \<^verbatim>\<open>ALARMS.append\<close>, with no other
  global changed and nothing published or pushed.
\<close>

theorem alarm_before_selection_raises:
  assumes "ALARMS g = None"
  shows
    "(last_segment (topic m) = ''overdue-scan'' \<and>
      loads_values (payload m) = Inr [JStr i, chk, t, c] \<and>
      fromtimestamp_hms env t = Inr tm \<longrightarrow>
        on_mqtt_message g env m = raises (g\<lparr>ALARM_TRIGGERED := True\<rparr>) [] AttributeError) \<and>
     (last_segment (topic m') \<noteq> ''connected'' \<and>
      last_segment (topic m') \<noteq> ''overdue-scan'' \<and>
      topic m' = ALERTS env \<and>
      loads_values (payload m') = Inr [valid, JStr r, ident, chk', t'] \<and>
      \<not> truthy valid \<longrightarrow>
        on_mqtt_message g env m' = raises (g\<lparr>ALARM_TRIGGERED := True\<rparr>) [] AttributeError)"
proof (intro conjI impI)
  assume "last_segment (topic m) = ''overdue-scan'' \<and>
      loads_values (payload m) = Inr [JStr i, chk, t, c] \<and>
      fromtimestamp_hms env t = Inr tm"
  then show "on_mqtt_message g env m = raises (g\<lparr>ALARM_TRIGGERED := True\<rparr>) [] AttributeError"
    using assms by (simp add: overdue_scan_alarm)
next
  assume h: "last_segment (topic m') \<noteq> ''connected'' \<and>
      last_segment (topic m') \<noteq> ''overdue-scan'' \<and>
      topic m' = ALERTS env \<and>
      loads_values (payload m') = Inr [valid, JStr r, ident, chk', t'] \<and>
      \<not> truthy valid"
  have "on_mqtt_message g env m' =
     (case ALARMS g of
        None \<Rightarrow> raises (g\<lparr>ALARM_TRIGGERED := True\<rparr>) [] AttributeError
      | Some al \<Rightarrow>
          (case upper ident of
             Inl e \<Rightarrow>
               raises (g\<lparr>ALARM_TRIGGERED := True, ALARMS := Some (al @ [now_hms env])\<rparr>)
                 [Publish (ALARM env) ''ON'' 2] e
           | Inr idu \<Rightarrow>
               returns (g\<lparr>ALARM_TRIGGERED := True, ALARMS := Some (al @ [now_hms env])\<rparr>)
                 [Publish (ALARM env) ''ON'' 2,
                  Emit ''alert-msgs'' ''alert-danger''
                    (invalid_message
                      (if r = ''card not on duty'' then ''UNKNOWN CARD'' else str_upper r)
                      idu chk' t')]))"
  proof (rule invalid_scan_alarm)
    show "last_segment (topic m') \<noteq> ''connected''" using h by blast
    show "last_segment (topic m') \<noteq> ''overdue-scan''" using h by blast
    show "topic m' = ALERTS env" using h by blast
    show "loads_values (payload m') = Inr [valid, JStr r, ident, chk', t']" using h by blast
    show "\<not> truthy valid" using h by blast
    show "invalid_tag env (JStr r) ident =
        Inr (if r = ''card not on duty'' then ''UNKNOWN CARD'' else str_upper r)"
      by (rule invalid_tag_of_str)
  qed
  then show "on_mqtt_message g env m' = raises (g\<lparr>ALARM_TRIGGERED := True\<rparr>) [] AttributeError"
    using assms by simp
qed

theorem alarm_before_selection_raises_witness:
  "ALARMS (initial_globals :: (entry list, (string \<times> nat) list) globals) = None \<and>
   last_segment (topic overdue_first) = ''overdue-scan'' \<and>
   loads_values (payload overdue_first) =
     Inr [JStr ''ab12cd34'', JStr ''A'', JInt 1700000000, JBool False] \<and>
   fromtimestamp_hms demo_env (JInt 1700000000) = Inr ''22:13:20'' \<and>
   on_mqtt_message (initial_globals :: (entry list, (string \<times> nat) list) globals) demo_env
       overdue_first =
     raises (initial_globals\<lparr>ALARM_TRIGGERED := True\<rparr>) [] AttributeError \<and>
   last_segment (topic scan_not_on_duty) \<noteq> ''connected'' \<and>
   last_segment (topic scan_not_on_duty) \<noteq> ''overdue-scan'' \<and>
   topic scan_not_on_duty = ALERTS demo_env \<and>
   loads_values (payload scan_not_on_duty) =
     Inr [JBool False, JStr ''card not on duty'', JStr ''ab12cd34'', JStr ''A'', JInt 1700000000] \<and>
   \<not> truthy (JBool False) \<and>
   on_mqtt_message (initial_globals :: (entry list, (string \<times> nat) list) globals) demo_env
       scan_not_on_duty =
     raises (initial_globals\<lparr>ALARM_TRIGGERED := True\<rparr>) [] AttributeError"
proof -
  have a: "ALARMS (initial_globals :: (entry list, (string \<times> nat) list) globals) = None"
    by (simp add: initial_globals_def)
  from alarm_before_selection_raises [OF a, of overdue_first "''ab12cd34''" "JStr ''A''"
      "JInt 1700000000" "JBool False" demo_env "''22:13:20''" scan_not_on_duty "JBool False"
      "''card not on duty''" "JStr ''ab12cd34''" "JStr ''A''" "JInt 1700000000"]
    a overdue_first_facts(1,2,3) scan_not_on_duty_facts
  show ?thesis by simp
qed

text \<open>
  C6, before any circuit is selected. An overdue report for a card and checkpoint of no
  circuit, on the initial globals, sets \<^verbatim>\<open>ALARM_TRIGGERED\<close> and then raises
  AttributeError: \<^verbatim>\<open>ALARMS\<close> stays \<^verbatim>\<open>None\<close>, nothing is appended, published or
  pushed. (With \<^verbatim>\<open>ALARMS\<close> a list, \<open>overdue_scan_alarm\<close> gives all four effects.)
\<close>

theorem overdue_before_selection_raises:
  "on_mqtt_message (initial_globals :: (entry list, (string \<times> nat) list) globals) demo_env
       overdue_unscheduled =
     \<lparr>globals_of = initial_globals\<lparr>ALARM_TRIGGERED := True\<rparr>, emitted = [],
      raised = Some AttributeError\<rparr> \<and>
   ALARMS (initial_globals\<lparr>ALARM_TRIGGERED := True\<rparr>
     :: (entry list, (string \<times> nat) list) globals) = None"
proof -
  have t: "last_segment (topic overdue_unscheduled) = ''overdue-scan''"
    by (simp add: overdue_unscheduled_def last_segment_def)
  have p: "loads_values (payload overdue_unscheduled) =
      Inr [JStr ''9f8e7d6c'', JStr ''D'', JInt 1700000900, JBool False]"
    by (simp add: overdue_unscheduled_def loads_values_def dict_values_def)
  have f: "fromtimestamp_hms demo_env (JInt 1700000900) = Inr ''22:28:20''"
    by (simp add: fromtimestamp_hms_def demo_env_def utc_hms_def two_digits_def)
  show ?thesis
    unfolding overdue_scan_alarm [OF t p f]
    by (simp add: initial_globals_def raises_def)
qed

text \<open>
  C4, as the handler has it. With a validated form, \<^verbatim>\<open>select_circuit\<close> loads the eight
  globals \<^verbatim>\<open>SHIFT_STATUS\<close>, \<^verbatim>\<open>CURRENT_CIRCUIT\<close>, \<^verbatim>\<open>SENTRY_CIRCUIT\<close>, \<^verbatim>\<open>PATHS\<close>,
  \<^verbatim>\<open>START\<close>, \<^verbatim>\<open>END\<close>, \<^verbatim>\<open>CIRCUIT_COMPLETED\<close> and \<^verbatim>\<open>ALARMS\<close> from the stored shift,
  whatever session was there, and publishes \<^verbatim>\<open>ON\<close>; it leaves \<^verbatim>\<open>ALARM_TRIGGERED\<close> as it
  was, so the flag is false after it when \<^verbatim>\<open>silence_alarm\<close> ran just before.
\<close>

theorem select_circuit_replaces_session:
  "SHIFT_STATUS (globals_of (select_circuit g env (Some sh))) = True \<and>
   CURRENT_CIRCUIT (globals_of (select_circuit g env (Some sh))) = Some (shift_id sh) \<and>
   SENTRY_CIRCUIT (globals_of (select_circuit g env (Some sh))) = Some (circuit sh) \<and>
   PATHS (globals_of (select_circuit g env (Some sh))) = Some (path_freqs sh) \<and>
   START (globals_of (select_circuit g env (Some sh))) = shift_start sh \<and>
   END (globals_of (select_circuit g env (Some sh))) = shift_end sh \<and>
   CIRCUIT_COMPLETED (globals_of (select_circuit g env (Some sh))) = completed sh \<and>
   ALARMS (globals_of (select_circuit g env (Some sh))) = alarms sh \<and>
   ALARM_TRIGGERED (globals_of (select_circuit g env (Some sh))) = ALARM_TRIGGERED g \<and>
   ALARM_TRIGGERED
     (globals_of (select_circuit (globals_of (silence_alarm g env)) env (Some sh))) = False \<and>
   Publish (SHIFT_ON_OFF env) ''ON'' 0 \<in> set (emitted (select_circuit g env (Some sh))) \<and>
   raised (select_circuit g env (Some sh)) = None"
  by (simp add: select_circuit_def silence_alarm_def returns_def)

text \<open>
  C4 as stated fails: with the alarm raised by the overdue report, selecting the shift
  again leaves \<^verbatim>\<open>ALARM_TRIGGERED\<close> true.
\<close>

theorem select_circuit_keeps_alarm_flag:
  "ALARM_TRIGGERED demo_alarmed \<and>
   ALARM_TRIGGERED (globals_of (select_circuit demo_alarmed demo_env (Some demo_shift)))"
  by (simp add: demo_alarmed_eval select_circuit_def returns_def)

text \<open>
  C5, as the handler has it. \<^verbatim>\<open>deselect_circuit\<close> sets \<^verbatim>\<open>SHIFT_STATUS\<close> to false,
  \<^verbatim>\<open>CURRENT_CIRCUIT\<close> and \<^verbatim>\<open>SENTRY_CIRCUIT\<close> to \<^verbatim>\<open>None\<close>, \<^verbatim>\<open>START\<close> and \<^verbatim>\<open>END\<close> to 0,
  publishes \<^verbatim>\<open>OFF\<close> on the shift topic, and leaves \<^verbatim>\<open>ALARM_TRIGGERED\<close> to
  \<^verbatim>\<open>silence_alarm\<close>.
\<close>

theorem deselect_circuit_clears_selection:
  "SHIFT_STATUS (globals_of (deselect_circuit g env)) = False \<and>
   CURRENT_CIRCUIT (globals_of (deselect_circuit g env)) = None \<and>
   SENTRY_CIRCUIT (globals_of (deselect_circuit g env)) = None \<and>
   START (globals_of (deselect_circuit g env)) = 0 \<and>
   END (globals_of (deselect_circuit g env)) = 0 \<and>
   ALARM_TRIGGERED (globals_of (deselect_circuit g env)) = ALARM_TRIGGERED g \<and>
   Publish (SHIFT_ON_OFF env) ''OFF'' 0 \<in> set (emitted (deselect_circuit g env)) \<and>
   raised (deselect_circuit g env) = None"
  by (simp add: deselect_circuit_def returns_def)

text \<open>
  C5 as stated fails: deselecting after the overdue report does not give back the initial
  globals; the alarm flag is still true, and the alarm history and the path frequencies
  are still those of the shift.
\<close>

theorem deselect_circuit_keeps_alarm_state:
  "globals_of (deselect_circuit demo_alarmed demo_env) \<noteq> initial_globals \<and>
   ALARM_TRIGGERED (globals_of (deselect_circuit demo_alarmed demo_env)) \<and>
   ALARMS (globals_of (deselect_circuit demo_alarmed demo_env)) = Some [''08:15:00''] \<and>
   PATHS (globals_of (deselect_circuit demo_alarmed demo_env)) =
     Some [(''A'', 2), (''B'', 1), (''C'', 1)]"
  by (simp add: demo_alarmed_eval demo_selected_eval deselect_circuit_def returns_def
      initial_globals_def)

text \<open>Unpacking a list into a fixed number of names (ValueError otherwise).\<close>

lemma unpack2_other:
  "length vs \<noteq> 2 \<Longrightarrow> (case vs of [a, b] \<Rightarrow> f a b | _ \<Rightarrow> z) = z"
  by (auto split: list.splits)

lemma unpack4_other:
  "length vs \<noteq> 4 \<Longrightarrow> (case vs of [a, b, c, d] \<Rightarrow> f a b c d | _ \<Rightarrow> z) = z"
  by (auto split: list.splits)

lemma unpack5_other:
  "length vs \<noteq> 5 \<Longrightarrow> (case vs of [a, b, c, d, e] \<Rightarrow> f a b c d e | _ \<Rightarrow> z) = z"
  by (auto split: list.splits)

lemma length2E: "length vs = 2 \<Longrightarrow> \<exists>a b. vs = [a, b]"
  by (auto simp: length_Suc_conv numeral_eq_Suc)

lemma length4E: "length vs = 4 \<Longrightarrow> \<exists>a b c d. vs = [a, b, c, d]"
  by (auto simp: length_Suc_conv numeral_eq_Suc)

lemma length5E: "length vs = 5 \<Longrightarrow> \<exists>a b c d e. vs = [a, b, c, d, e]"
  by (auto simp: length_Suc_conv numeral_eq_Suc)

text \<open>Each branch, by how far the payload gets.\<close>

lemma on_connected_decode:
  "loads_values pl = Inl e \<Longrightarrow> on_connected g pl = raises g [] e"
  unfolding on_connected_def by simp

lemma on_connected_shape:
  "loads_values pl = Inr vs \<Longrightarrow> length vs \<noteq> 2 \<Longrightarrow>
   on_connected g pl = raises g [] ValueError"
  unfolding on_connected_def by (simp add: unpack2_other)

lemma on_connected_unpacked:
  "loads_values pl = Inr [a, b] \<Longrightarrow> raised (on_connected g pl) = None"
  unfolding on_connected_def by (simp add: returns_def)

lemma on_overdue_scan_decode:
  "loads_values pl = Inl e \<Longrightarrow> on_overdue_scan g env pl = raises g [] e"
  unfolding on_overdue_scan_def by simp

lemma on_overdue_scan_shape:
  "loads_values pl = Inr vs \<Longrightarrow> length vs \<noteq> 4 \<Longrightarrow>
   on_overdue_scan g env pl = raises g [] ValueError"
  unfolding on_overdue_scan_def by (simp add: unpack4_other)

lemma on_overdue_scan_unpacked:
  "loads_values pl = Inr [a, b, c, d] \<Longrightarrow>
   kept_but_alarm_and_circuit g (globals_of (on_overdue_scan g env pl))"
  unfolding on_overdue_scan_def kept_but_alarm_and_circuit_def
  by (simp add: returns_def raises_def Let_def split: sum.split option.split)

lemma on_alerts_decode:
  "loads_values pl = Inl e \<Longrightarrow> on_alerts g env pl = raises g [] e"
  unfolding on_alerts_def by simp

lemma on_alerts_shape:
  "loads_values pl = Inr vs \<Longrightarrow> length vs \<noteq> 5 \<Longrightarrow>
   on_alerts g env pl = raises g [] ValueError"
  unfolding on_alerts_def by (simp add: unpack5_other)

lemma on_alerts_unpacked:
  "loads_values pl = Inr [a, b, c, d, e] \<Longrightarrow>
   kept_but_alarm_and_circuit g (globals_of (on_alerts g env pl))"
  unfolding on_alerts_def kept_but_alarm_and_circuit_def
  by (simp add: returns_def raises_def Let_def split: sum.split option.split prod.split)

lemma kept_refl: "kept_but_alarm_and_circuit g g"
  by (simp add: kept_but_alarm_and_circuit_def)

lemma on_connected_raise:
  assumes "raised (on_connected g pl) \<noteq> None"
  shows "globals_of (on_connected g pl) = g"
proof (cases "loads_values pl")
  case (Inl e)
  then show ?thesis by (simp add: on_connected_decode raises_def)
next
  case (Inr vs)
  show ?thesis
  proof (cases "length vs = 2")
    case True
    then obtain a b where "vs = [a, b]" using length2E by blast
    with Inr assms show ?thesis by (simp add: on_connected_unpacked)
  next
    case False
    with Inr show ?thesis by (simp add: on_connected_shape raises_def)
  qed
qed

lemma on_overdue_scan_kept:
  "kept_but_alarm_and_circuit g (globals_of (on_overdue_scan g env pl))"
proof (cases "loads_values pl")
  case (Inl e)
  then show ?thesis by (simp add: on_overdue_scan_decode raises_def kept_refl)
next
  case (Inr vs)
  show ?thesis
  proof (cases "length vs = 4")
    case True
    then obtain a b c d where "vs = [a, b, c, d]" using length4E by blast
    with Inr show ?thesis by (simp add: on_overdue_scan_unpacked)
  next
    case False
    with Inr show ?thesis by (simp add: on_overdue_scan_shape raises_def kept_refl)
  qed
qed

lemma on_alerts_kept:
  "kept_but_alarm_and_circuit g (globals_of (on_alerts g env pl))"
proof (cases "loads_values pl")
  case (Inl e)
  then show ?thesis by (simp add: on_alerts_decode raises_def kept_refl)
next
  case (Inr vs)
  show ?thesis
  proof (cases "length vs = 5")
    case True
    then obtain a b c d e where "vs = [a, b, c, d, e]" using length5E by blast
    with Inr show ?thesis by (simp add: on_alerts_unpacked)
  next
    case False
    with Inr show ?thesis by (simp add: on_alerts_shape raises_def kept_refl)
  qed
qed

lemma malformed_shape_raises:
  assumes "malformed_shape env m"
  shows "\<exists>e. on_mqtt_message g env m = raises g [] e"
proof -
  from assms obtain n where n: "expected_fields env (topic m) = Some n"
    by (auto simp: malformed_shape_def split: option.splits)
  from assms n have bad:
    "(\<exists>e. loads_values (payload m) = Inl e) \<or>
     (\<exists>vs. loads_values (payload m) = Inr vs \<and> length vs \<noteq> n)"
    by (auto simp: malformed_shape_def split: sum.splits)
  consider (c) "last_segment (topic m) = ''connected''" "n = 2"
    | (o) "last_segment (topic m) \<noteq> ''connected''" "last_segment (topic m) = ''overdue-scan''"
        "n = 4"
    | (a) "last_segment (topic m) \<noteq> ''connected''" "last_segment (topic m) \<noteq> ''overdue-scan''"
        "topic m = ALERTS env" "n = 5"
    using n by (auto simp: expected_fields_def split: if_splits)
  then show ?thesis
  proof cases
    case c
    with bad show ?thesis
      by (auto simp: on_mqtt_message_def on_connected_decode on_connected_shape)
  next
    case o
    with bad show ?thesis
      by (auto simp: on_mqtt_message_def on_overdue_scan_decode on_overdue_scan_shape)
  next
    case a
    with bad show ?thesis
      by (auto simp: on_mqtt_message_def on_alerts_decode on_alerts_shape)
  qed
qed

text \<open>
  C3, as the handler has it. The handler validates nothing and catches nothing, so a bad
  payload makes it raise. When the payload does not decode, is not a dict or has another
  number of values than the branch unpacks, it raises before any assignment: the globals
  are unchanged and nothing is published or pushed. Whenever it raises, at most
  \<^verbatim>\<open>ALARM_TRIGGERED\<close>, \<^verbatim>\<open>ALARMS\<close> and \<^verbatim>\<open>SENTRY_CIRCUIT\<close> differ from before: the
  connection flags, \<^verbatim>\<open>SHIFT_STATUS\<close>, \<^verbatim>\<open>CURRENT_CIRCUIT\<close>, \<^verbatim>\<open>PATHS\<close>, \<^verbatim>\<open>START\<close>,
  \<^verbatim>\<open>END\<close> and \<^verbatim>\<open>CIRCUIT_COMPLETED\<close> are kept.
\<close>

theorem raise_keeps_session_frame:
  "(raised (on_mqtt_message g env m) \<noteq> None \<longrightarrow>
      kept_but_alarm_and_circuit g (globals_of (on_mqtt_message g env m))) \<and>
   (malformed_shape env m \<longrightarrow>
      raised (on_mqtt_message g env m) \<noteq> None \<and>
      globals_of (on_mqtt_message g env m) = g \<and>
      emitted (on_mqtt_message g env m) = [])"
proof (rule conjI; rule impI)
  assume r: "raised (on_mqtt_message g env m) \<noteq> None"
  show "kept_but_alarm_and_circuit g (globals_of (on_mqtt_message g env m))"
  proof (cases "last_segment (topic m) = ''connected''")
    case True
    with r have "globals_of (on_connected g (payload m)) = g"
      by (intro on_connected_raise) (simp add: on_mqtt_message_def)
    with True show ?thesis by (simp add: on_mqtt_message_def kept_refl)
  next
    case False
    with r show ?thesis
      by (auto simp: on_mqtt_message_def on_overdue_scan_kept on_alerts_kept on_done_def
          returns_def kept_refl split: if_splits)
  qed
next
  assume "malformed_shape env m"
  then obtain e where "on_mqtt_message g env m = raises g [] e"
    using malformed_shape_raises by blast
  then show "raised (on_mqtt_message g env m) \<noteq> None \<and>
      globals_of (on_mqtt_message g env m) = g \<and>
      emitted (on_mqtt_message g env m) = []"
    by (simp add: raises_def)
qed

theorem raise_keeps_session_frame_witness:
  "malformed_shape demo_env status_one_field \<and>
   raised (on_mqtt_message demo_alarmed demo_env status_one_field) \<noteq> None \<and>
   kept_but_alarm_and_circuit demo_alarmed
     (globals_of (on_mqtt_message demo_alarmed demo_env status_one_field)) \<and>
   globals_of (on_mqtt_message demo_alarmed demo_env status_one_field) = demo_alarmed \<and>
   emitted (on_mqtt_message demo_alarmed demo_env status_one_field) = []"
proof -
  have t: "last_segment (topic status_one_field) = ''connected''"
    by (simp add: status_one_field_def last_segment_def)
  have p: "loads_values (payload status_one_field) = Inr [JStr ''checkpoint-A'']"
    by (simp add: status_one_field_def loads_values_def dict_values_def)
  have h: "malformed_shape demo_env status_one_field"
    by (simp add: malformed_shape_def expected_fields_def t p)
  from raise_keeps_session_frame [of demo_alarmed demo_env status_one_field] h
  show ?thesis by blast
qed

text \<open>
  C3 as stated fails: an invalid scan result whose \<^verbatim>\<open>id\<close> is the number 7, on the
  selected shift, makes the handler raise AttributeError at \<^verbatim>\<open>id.upper()\<close> of line 644,
  after it has set \<^verbatim>\<open>ALARM_TRIGGERED\<close>, appended to \<^verbatim>\<open>ALARMS\<close> and published the
  alarm, and before the push. The malformed payload is neither dropped without a change of
  state nor survived without an exception.
\<close>

theorem numeric_id_raises_after_alarm:
  "on_mqtt_message demo_selected demo_env scan_numeric_id =
     \<lparr>globals_of = demo_selected\<lparr>ALARM_TRIGGERED := True, ALARMS := Some [''08:15:00'']\<rparr>,
      emitted = [Publish ''sentry-platform/backend-server/alarm'' ''ON'' 2],
      raised = Some AttributeError\<rparr> \<and>
   demo_selected\<lparr>ALARM_TRIGGERED := True, ALARMS := Some [''08:15:00'']\<rparr> \<noteq> demo_selected"
proof -
  have t: "last_segment (topic scan_numeric_id) \<noteq> ''connected''"
    "last_segment (topic scan_numeric_id) \<noteq> ''overdue-scan''"
    "topic scan_numeric_id = ALERTS demo_env"
    by (simp_all add: scan_numeric_id_def last_segment_def demo_env_def)
  have p: "loads_values (payload scan_numeric_id) =
      Inr [JBool False, JStr ''wrong checkpoint'', JInt 7, JStr ''A'', JInt 1700000000]"
    by (simp add: scan_numeric_id_def loads_values_def dict_values_def)
  have v: "\<not> truthy (JBool False)" by simp
  note step = invalid_scan_alarm [OF t p v invalid_tag_of_str, of demo_selected]
  show ?thesis
    unfolding step
    by (simp add: demo_selected_eval upper_def raises_def demo_env_def)
qed

end
